theory Spec2Isabelle
  imports Main "HOL-Library.Word" "HOL-Library.Signed_Division"
begin

section \<open>The runtime values of package expr\<close>

text \<open>
  The executors of package \<^verbatim>\<open>expr\<close> work on \<^verbatim>\<open>reflect.Value\<close>. A value has a kind
  (\<^verbatim>\<open>reflect.Kind\<close>, an unsigned enumeration in the order below) and a payload that is read
  through accessor methods which panic on the wrong kind.
\<close>

datatype kind =
    reflect_Invalid | reflect_Bool
  | reflect_Int | reflect_Int8 | reflect_Int16 | reflect_Int32 | reflect_Int64
  | reflect_Uint | reflect_Uint8 | reflect_Uint16 | reflect_Uint32 | reflect_Uint64
  | reflect_Uintptr
  | reflect_Float32 | reflect_Float64 | reflect_Complex64 | reflect_Complex128
  | reflect_Array | reflect_Chan | reflect_Func | reflect_Interface | reflect_Map
  | reflect_Pointer | reflect_Slice | reflect_String | reflect_Struct
  | reflect_UnsafePointer

text \<open>The numeric value of a kind: the executors compare kinds with \<^verbatim>\<open><=\<close>.\<close>

fun Kind_uint :: "kind \<Rightarrow> nat" where
  "Kind_uint reflect_Invalid = 0"
| "Kind_uint reflect_Bool = 1"
| "Kind_uint reflect_Int = 2"
| "Kind_uint reflect_Int8 = 3"
| "Kind_uint reflect_Int16 = 4"
| "Kind_uint reflect_Int32 = 5"
| "Kind_uint reflect_Int64 = 6"
| "Kind_uint reflect_Uint = 7"
| "Kind_uint reflect_Uint8 = 8"
| "Kind_uint reflect_Uint16 = 9"
| "Kind_uint reflect_Uint32 = 10"
| "Kind_uint reflect_Uint64 = 11"
| "Kind_uint reflect_Uintptr = 12"
| "Kind_uint reflect_Float32 = 13"
| "Kind_uint reflect_Float64 = 14"
| "Kind_uint reflect_Complex64 = 15"
| "Kind_uint reflect_Complex128 = 16"
| "Kind_uint reflect_Array = 17"
| "Kind_uint reflect_Chan = 18"
| "Kind_uint reflect_Func = 19"
| "Kind_uint reflect_Interface = 20"
| "Kind_uint reflect_Map = 21"
| "Kind_uint reflect_Pointer = 22"
| "Kind_uint reflect_Slice = 23"
| "Kind_uint reflect_String = 24"
| "Kind_uint reflect_Struct = 25"
| "Kind_uint reflect_UnsafePointer = 26"

text \<open>\<^verbatim>\<open>Kind.String()\<close>, which \<^verbatim>\<open>%v\<close> prints in the error messages.\<close>

fun Kind_String :: "kind \<Rightarrow> string" where
  "Kind_String reflect_Invalid = ''invalid''"
| "Kind_String reflect_Bool = ''bool''"
| "Kind_String reflect_Int = ''int''"
| "Kind_String reflect_Int8 = ''int8''"
| "Kind_String reflect_Int16 = ''int16''"
| "Kind_String reflect_Int32 = ''int32''"
| "Kind_String reflect_Int64 = ''int64''"
| "Kind_String reflect_Uint = ''uint''"
| "Kind_String reflect_Uint8 = ''uint8''"
| "Kind_String reflect_Uint16 = ''uint16''"
| "Kind_String reflect_Uint32 = ''uint32''"
| "Kind_String reflect_Uint64 = ''uint64''"
| "Kind_String reflect_Uintptr = ''uintptr''"
| "Kind_String reflect_Float32 = ''float32''"
| "Kind_String reflect_Float64 = ''float64''"
| "Kind_String reflect_Complex64 = ''complex64''"
| "Kind_String reflect_Complex128 = ''complex128''"
| "Kind_String reflect_Array = ''array''"
| "Kind_String reflect_Chan = ''chan''"
| "Kind_String reflect_Func = ''func''"
| "Kind_String reflect_Interface = ''interface''"
| "Kind_String reflect_Map = ''map''"
| "Kind_String reflect_Pointer = ''ptr''"
| "Kind_String reflect_Slice = ''slice''"
| "Kind_String reflect_String = ''string''"
| "Kind_String reflect_Struct = ''struct''"
| "Kind_String reflect_UnsafePointer = ''unsafe.Pointer''"

type_synonym int64 = "64 word"
type_synonym uint64 = "64 word"
type_synonym float64 = "64 word"
type_synonym complex128 = "64 word \<times> 64 word"

text \<open>
  A \<^verbatim>\<open>reflect.Value\<close>. Integers carry their own width (\<^verbatim>\<open>int\<close>, \<^verbatim>\<open>uint\<close> and
  \<^verbatim>\<open>uintptr\<close> are 64 bits wide); a float is its IEEE bit pattern, a complex number a pair
  of them. \<open>VInvalid\<close> is the zero Value. A pointer or interface holds what \<^verbatim>\<open>Elem()\<close>
  returns, \<open>None\<close> when it is nil. The aggregate kinds carry an opaque handle.
\<close>

datatype val =
    VInvalid
  | VBool bool
  | VInt "64 word" | VInt8 "8 word" | VInt16 "16 word" | VInt32 "32 word" | VInt64 "64 word"
  | VUint "64 word" | VUint8 "8 word" | VUint16 "16 word" | VUint32 "32 word"
  | VUint64 "64 word" | VUintptr "64 word"
  | VFloat32 "32 word" | VFloat64 "64 word"
  | VComplex64 "32 word \<times> 32 word" | VComplex128 "64 word \<times> 64 word"
  | VArray nat | VChan nat | VFunc nat
  | VInterface "val option"
  | VMap nat
  | VPointer "val option"
  | VSlice nat
  | VString string
  | VStruct nat
  | VUnsafePointer nat

fun Kind :: "val \<Rightarrow> kind" where
  "Kind VInvalid = reflect_Invalid"
| "Kind (VBool _) = reflect_Bool"
| "Kind (VInt _) = reflect_Int"
| "Kind (VInt8 _) = reflect_Int8"
| "Kind (VInt16 _) = reflect_Int16"
| "Kind (VInt32 _) = reflect_Int32"
| "Kind (VInt64 _) = reflect_Int64"
| "Kind (VUint _) = reflect_Uint"
| "Kind (VUint8 _) = reflect_Uint8"
| "Kind (VUint16 _) = reflect_Uint16"
| "Kind (VUint32 _) = reflect_Uint32"
| "Kind (VUint64 _) = reflect_Uint64"
| "Kind (VUintptr _) = reflect_Uintptr"
| "Kind (VFloat32 _) = reflect_Float32"
| "Kind (VFloat64 _) = reflect_Float64"
| "Kind (VComplex64 _) = reflect_Complex64"
| "Kind (VComplex128 _) = reflect_Complex128"
| "Kind (VArray _) = reflect_Array"
| "Kind (VChan _) = reflect_Chan"
| "Kind (VFunc _) = reflect_Func"
| "Kind (VInterface _) = reflect_Interface"
| "Kind (VMap _) = reflect_Map"
| "Kind (VPointer _) = reflect_Pointer"
| "Kind (VSlice _) = reflect_Slice"
| "Kind (VString _) = reflect_String"
| "Kind (VStruct _) = reflect_Struct"
| "Kind (VUnsafePointer _) = reflect_UnsafePointer"

subsection \<open>Errors, panics and results\<close>

text \<open>
  An \<^verbatim>\<open>error\<close> is the package's sentinel, a fresh error made by \<^verbatim>\<open>fmt.Errorf\<close> (its
  message), or an error made elsewhere that a continuation hands in.
\<close>

datatype error =
    ErrUnsupportedBinaryExpr
  | Errorf string
  | External string

text \<open>
  A panic is either the \<^verbatim>\<open>*reflect.ValueError\<close> of an accessor called on the wrong kind
  (method name and kind) or the runtime error of an integer division by zero.
\<close>

datatype panic =
    ValueError string kind
  | runtime_divideError

text \<open>
  A Go call of type \<^verbatim>\<open>(reflect.Value, error)\<close> either returns its pair (\<open>None\<close> is the
  nil error) or panics.
\<close>

datatype result =
    Return val "error option"
  | Panic panic

definition invalidValue :: val where
  "invalidValue = VInvalid"

definition trueValue :: val where
  "trueValue = VBool True"

definition falseValue :: val where
  "falseValue = VBool False"

text \<open>
  The continuation \<^verbatim>\<open>next\<close> is a closure over the token stream: it reads and changes a
  state \<open>'s\<close>, returns or panics, or does not come back at all (\<open>None\<close>). An executor has
  the same shape once its two arguments are given.
\<close>

type_synonym 's continuation = "'s \<Rightarrow> (result \<times> 's) option"

subsection \<open>Accessors\<close>

definition Value_Bool :: "val \<Rightarrow> panic + bool" where
  "Value_Bool v = (case v of VBool b \<Rightarrow> Inr b
                   | _ \<Rightarrow> Inl (ValueError ''reflect.Value.Bool'' (Kind v)))"

definition Value_Int :: "val \<Rightarrow> panic + int64" where
  "Value_Int v = (case v of
       VInt w \<Rightarrow> Inr w
     | VInt8 w \<Rightarrow> Inr (scast w)
     | VInt16 w \<Rightarrow> Inr (scast w)
     | VInt32 w \<Rightarrow> Inr (scast w)
     | VInt64 w \<Rightarrow> Inr w
     | _ \<Rightarrow> Inl (ValueError ''reflect.Value.Int'' (Kind v)))"

definition Value_Uint :: "val \<Rightarrow> panic + uint64" where
  "Value_Uint v = (case v of
       VUint w \<Rightarrow> Inr w
     | VUint8 w \<Rightarrow> Inr (ucast w)
     | VUint16 w \<Rightarrow> Inr (ucast w)
     | VUint32 w \<Rightarrow> Inr (ucast w)
     | VUint64 w \<Rightarrow> Inr w
     | VUintptr w \<Rightarrow> Inr w
     | _ \<Rightarrow> Inl (ValueError ''reflect.Value.Uint'' (Kind v)))"

text \<open>
  \<^verbatim>\<open>Value.String()\<close> does not panic: on another kind it returns the description
  \<^verbatim>\<open><T Value>\<close>, with the type's name (for an unnamed basic type, its kind's name).
\<close>

definition Value_String :: "val \<Rightarrow> string" where
  "Value_String v = (case v of VString s \<Rightarrow> s
                     | _ \<Rightarrow> ''<'' @ Kind_String (Kind v) @ '' Value>'')"

text \<open>
  Floating-point and complex arithmetic is IEEE 754 on bit patterns and is not interpreted
  here: the conversion that \<^verbatim>\<open>Value.Float()\<close> applies to a \<^verbatim>\<open>float32\<close> and the
  operations of \<^verbatim>\<open>float64\<close> and \<^verbatim>\<open>complex128\<close> are parameters of the executors.
\<close>

record float_ops =
  float64_of_float32 :: "32 word \<Rightarrow> float64"
  float_add :: "float64 \<Rightarrow> float64 \<Rightarrow> float64"
  float_sub :: "float64 \<Rightarrow> float64 \<Rightarrow> float64"
  float_mul :: "float64 \<Rightarrow> float64 \<Rightarrow> float64"
  float_quo :: "float64 \<Rightarrow> float64 \<Rightarrow> float64"
  complex_add :: "complex128 \<Rightarrow> complex128 \<Rightarrow> complex128"
  complex_sub :: "complex128 \<Rightarrow> complex128 \<Rightarrow> complex128"
  complex_mul :: "complex128 \<Rightarrow> complex128 \<Rightarrow> complex128"
  complex_quo :: "complex128 \<Rightarrow> complex128 \<Rightarrow> complex128"

definition Value_Float :: "float_ops \<Rightarrow> val \<Rightarrow> panic + float64" where
  "Value_Float fp v = (case v of
       VFloat32 w \<Rightarrow> Inr (float64_of_float32 fp w)
     | VFloat64 w \<Rightarrow> Inr w
     | _ \<Rightarrow> Inl (ValueError ''reflect.Value.Float'' (Kind v)))"

definition Value_Complex :: "float_ops \<Rightarrow> val \<Rightarrow> panic + complex128" where
  "Value_Complex fp v = (case v of
       VComplex64 c \<Rightarrow> Inr (float64_of_float32 fp (fst c), float64_of_float32 fp (snd c))
     | VComplex128 c \<Rightarrow> Inr c
     | _ \<Rightarrow> Inl (ValueError ''reflect.Value.Complex'' (Kind v)))"

text \<open>
  Modelled from the spec: \<^verbatim>\<open>reflectlite.Unwrap\<close> is not among the sources. It is the
  indirection-resolution step that follows pointer and interface layers down to a
  concrete kind; a nil pointer or interface resolves to the zero Value.
\<close>

fun reflectlite_Unwrap :: "val \<Rightarrow> val" where
  "reflectlite_Unwrap (VPointer None) = VInvalid"
| "reflectlite_Unwrap (VPointer (Some v)) = reflectlite_Unwrap v"
| "reflectlite_Unwrap (VInterface None) = VInvalid"
| "reflectlite_Unwrap (VInterface (Some v)) = reflectlite_Unwrap v"
| "reflectlite_Unwrap v = v"

section \<open>The logical executors\<close>

text \<open>\<^verbatim>\<open>fmt.Errorf(format, k)\<close> with one \<^verbatim>\<open>%v\<close> at the end of the format.\<close>

definition fmt_Errorf1 :: "string \<Rightarrow> kind \<Rightarrow> error" where
  "fmt_Errorf1 prefix k = Errorf (prefix @ Kind_String k)"

text \<open>\<^verbatim>\<open>LANDExprExecutor.Exec\<close>; the second kind test reads \<open>left\<close>, as the source does.\<close>

definition LANDExprExecutor_Exec :: "val \<Rightarrow> 's continuation \<Rightarrow> 's continuation" where
  "LANDExprExecutor_Exec left0 next s =
    (let left = reflectlite_Unwrap left0 in
     if Kind left \<noteq> reflect_Bool
     then Some (Return invalidValue (Some (fmt_Errorf1 ''unsupported expression: '' (Kind left))), s)
     else (case Value_Bool left of
       Inl p \<Rightarrow> Some (Panic p, s)
     | Inr b \<Rightarrow>
        if \<not> b then Some (Return left None, s)
        else (case next s of
          None \<Rightarrow> None
        | Some (Panic p, s') \<Rightarrow> Some (Panic p, s')
        | Some (Return right0 err, s') \<Rightarrow>
           if err \<noteq> None then Some (Return invalidValue err, s')
           else let right = reflectlite_Unwrap right0 in
             if Kind left \<noteq> reflect_Bool
             then Some (Return invalidValue
                    (Some (fmt_Errorf1 ''unsupported expression: '' (Kind left))), s')
             else Some (Return right None, s'))))"

definition LORExprExecutor_Exec :: "val \<Rightarrow> 's continuation \<Rightarrow> 's continuation" where
  "LORExprExecutor_Exec left0 next s =
    (let left = reflectlite_Unwrap left0 in
     if Kind left \<noteq> reflect_Bool
     then Some (Return invalidValue (Some (fmt_Errorf1 ''unsupported expression: '' (Kind left))), s)
     else (case Value_Bool left of
       Inl p \<Rightarrow> Some (Panic p, s)
     | Inr b \<Rightarrow>
        if b then Some (Return left None, s)
        else (case next s of
          None \<Rightarrow> None
        | Some (Panic p, s') \<Rightarrow> Some (Panic p, s')
        | Some (Return right0 err, s') \<Rightarrow>
           if err \<noteq> None then Some (Return invalidValue err, s')
           else let right = reflectlite_Unwrap right0 in
             if Kind right \<noteq> reflect_Bool
             then Some (Return invalidValue
                    (Some (fmt_Errorf1 ''unsupported expression: '' (Kind right))), s')
             else Some (Return right None, s'))))"

definition ANDExprExecutor_Exec :: "val \<Rightarrow> 's continuation \<Rightarrow> 's continuation" where
  "ANDExprExecutor_Exec right0 next s =
    (let right = reflectlite_Unwrap right0 in
     if Kind right \<noteq> reflect_Bool
     then Some (Return invalidValue
            (Some (fmt_Errorf1 ''unsupported and expression: '' (Kind right))), s)
     else (case Value_Bool right of
       Inl p \<Rightarrow> Some (Panic p, s)
     | Inr b \<Rightarrow>
        if \<not> b then Some (Return right None, s)
        else (case next s of
          None \<Rightarrow> None
        | Some (Panic p, s') \<Rightarrow> Some (Panic p, s')
        | Some (Return left0 err, s') \<Rightarrow>
           if err \<noteq> None then Some (Return invalidValue err, s')
           else let left = reflectlite_Unwrap left0 in
             if Kind left \<noteq> reflect_Bool
             then Some (Return invalidValue
                    (Some (fmt_Errorf1 ''unsupported and expression: '' (Kind left))), s')
             else Some (Return left None, s'))))"

definition ORExprExecutor_Exec :: "val \<Rightarrow> 's continuation \<Rightarrow> 's continuation" where
  "ORExprExecutor_Exec right0 next s =
    (let right = reflectlite_Unwrap right0 in
     if Kind right \<noteq> reflect_Bool
     then Some (Return invalidValue
            (Some (fmt_Errorf1 ''unsupported or expression: '' (Kind right))), s)
     else (case Value_Bool right of
       Inl p \<Rightarrow> Some (Panic p, s)
     | Inr b \<Rightarrow>
        if b then Some (Return right None, s)
        else (case next s of
          None \<Rightarrow> None
        | Some (Panic p, s') \<Rightarrow> Some (Panic p, s')
        | Some (Return left0 err, s') \<Rightarrow>
           if err \<noteq> None then Some (Return invalidValue err, s')
           else let left = reflectlite_Unwrap left0 in
             if Kind left \<noteq> reflect_Bool
             then Some (Return invalidValue
                    (Some (fmt_Errorf1 ''unsupported or expression: '' (Kind left))), s')
             else Some (Return left None, s'))))"

text \<open>\<^verbatim>\<open>NOTExprExecutor.Exec\<close>: no unwrapping and no kind test before \<^verbatim>\<open>right.Bool()\<close>.\<close>

definition NOTExprExecutor_Exec :: "val \<Rightarrow> 's continuation \<Rightarrow> 's continuation" where
  "NOTExprExecutor_Exec pending next s =
    (case next s of
       None \<Rightarrow> None
     | Some (Panic p, s') \<Rightarrow> Some (Panic p, s')
     | Some (Return right err, s') \<Rightarrow>
        if err \<noteq> None then Some (Return invalidValue err, s')
        else (case Value_Bool right of
          Inl p \<Rightarrow> Some (Panic p, s')
        | Inr b \<Rightarrow> Some (Return (VBool (\<not> b)) None, s')))"

section \<open>The arithmetic executors\<close>

subsection \<open>Go's integer operators\<close>

text \<open>
  \<^verbatim>\<open>+\<close>, \<^verbatim>\<open>-\<close> and \<^verbatim>\<open>*\<close> on \<^verbatim>\<open>int64\<close> and \<^verbatim>\<open>uint64\<close> wrap around, as the word
  operations do. The conversion \<^verbatim>\<open>uint64(x)\<close> of an \<^verbatim>\<open>int64\<close> keeps the value modulo
  \<open>2 ^ 64\<close>.
\<close>

definition uint64_of_int64 :: "int64 \<Rightarrow> uint64" where
  "uint64_of_int64 x = word_of_int (sint x)"

text \<open>
  \<^verbatim>\<open>/\<close> and \<^verbatim>\<open>%\<close> panic with a run-time error when the divisor is zero. On signed
  operands the quotient is truncated towards zero and the remainder has the sign of the
  dividend; the one quotient that does not fit, of the least \<^verbatim>\<open>int64\<close> by \<open>-1\<close>,
  wraps around.
\<close>

definition int64_quo :: "int64 \<Rightarrow> int64 \<Rightarrow> panic + int64" where
  "int64_quo x y = (if y = 0 then Inl runtime_divideError
                    else Inr (word_of_int (sint x sdiv sint y)))"

definition int64_rem :: "int64 \<Rightarrow> int64 \<Rightarrow> panic + int64" where
  "int64_rem x y = (if y = 0 then Inl runtime_divideError
                    else Inr (word_of_int (sint x smod sint y)))"

definition uint64_quo :: "uint64 \<Rightarrow> uint64 \<Rightarrow> panic + uint64" where
  "uint64_quo x y = (if y = 0 then Inl runtime_divideError else Inr (x div y))"

definition uint64_rem :: "uint64 \<Rightarrow> uint64 \<Rightarrow> panic + uint64" where
  "uint64_rem x y = (if y = 0 then Inl runtime_divideError else Inr (x mod y))"

subsection \<open>Plumbing\<close>

text \<open>
  A binary expression over two accessor calls: the accessors run left to right, the first
  panic wins, and the operation gets both payloads.
\<close>

definition binop :: "panic + 'a \<Rightarrow> panic + 'b \<Rightarrow> ('a \<Rightarrow> 'b \<Rightarrow> result) \<Rightarrow> result" where
  "binop x y f = (case x of Inl p \<Rightarrow> Panic p
                  | Inr a \<Rightarrow> (case y of Inl p \<Rightarrow> Panic p | Inr b \<Rightarrow> f a b))"

text \<open>\<^verbatim>\<open>return reflect.ValueOf(e), nil\<close> where evaluating \<open>e\<close> may panic.\<close>

definition ValueOf_or_panic :: "('a \<Rightarrow> val) \<Rightarrow> panic + 'a \<Rightarrow> result" where
  "ValueOf_or_panic mk r = (case r of Inl p \<Rightarrow> Panic p | Inr a \<Rightarrow> Return (mk a) None)"

text \<open>\<^verbatim>\<open>fmt.Errorf("unsupported expression: %v, %v", right.Kind(), left.Kind())\<close>\<close>

definition unsupported :: "val \<Rightarrow> val \<Rightarrow> result" where
  "unsupported right left =
     Return invalidValue
       (Some (Errorf (''unsupported expression: '' @ Kind_String (Kind right) @ '', ''
                      @ Kind_String (Kind left))))"

text \<open>The case lists of the outer switch and the range tests of the inner one.\<close>

definition case_Int :: "kind \<Rightarrow> bool" where
  "case_Int k \<longleftrightarrow>
     k \<in> {reflect_Int, reflect_Int8, reflect_Int16, reflect_Int32, reflect_Int64}"

definition case_Uint :: "kind \<Rightarrow> bool" where
  "case_Uint k \<longleftrightarrow>
     k \<in> {reflect_Uint, reflect_Uint8, reflect_Uint16, reflect_Uint32, reflect_Uint64}"

definition case_Float :: "kind \<Rightarrow> bool" where
  "case_Float k \<longleftrightarrow> k \<in> {reflect_Float32, reflect_Float64}"

definition case_Complex :: "kind \<Rightarrow> bool" where
  "case_Complex k \<longleftrightarrow> k \<in> {reflect_Complex64, reflect_Complex128}"

definition range_Int :: "kind \<Rightarrow> bool" where
  "range_Int k \<longleftrightarrow>
     Kind_uint reflect_Int \<le> Kind_uint k \<and> Kind_uint k \<le> Kind_uint reflect_Int64"

definition range_Uint :: "kind \<Rightarrow> bool" where
  "range_Uint k \<longleftrightarrow>
     Kind_uint reflect_Uint \<le> Kind_uint k \<and> Kind_uint k \<le> Kind_uint reflect_Uint64"

subsection \<open>The switches\<close>

text \<open>
  Each executor's \<^verbatim>\<open>switch right.Kind()\<close>, on the unwrapped operands; \<open>right\<close> is the
  executor's argument and \<open>left\<close> what the continuation returned. A case whose inner
  switch matches nothing leaves the outer switch and reaches the final error.
\<close>

definition ADDExprExecutor_switch :: "float_ops \<Rightarrow> val \<Rightarrow> val \<Rightarrow> result" where
  "ADDExprExecutor_switch fp right left =
    (if case_Int (Kind right) then
       (if range_Int (Kind left)
        then binop (Value_Int right) (Value_Int left) (\<lambda>a b. Return (VInt64 (a + b)) None)
        else if range_Uint (Kind left)
        then binop (Value_Int right) (Value_Uint left)
               (\<lambda>a b. Return (VUint64 (uint64_of_int64 a + b)) None)
        else unsupported right left)
     else if case_Uint (Kind right) then
       (if range_Int (Kind left)
        then binop (Value_Uint right) (Value_Int left)
               (\<lambda>a b. Return (VUint64 (a + uint64_of_int64 b)) None)
        else if range_Uint (Kind left)
        then binop (Value_Uint right) (Value_Uint left) (\<lambda>a b. Return (VUint64 (a + b)) None)
        else unsupported right left)
     else if case_Float (Kind right) then
       (if case_Float (Kind left)
        then binop (Value_Float fp right) (Value_Float fp left)
               (\<lambda>a b. Return (VFloat64 (float_add fp a b)) None)
        else unsupported right left)
     else if Kind right = reflect_String then
       (if Kind left = reflect_String
        then Return (VString (Value_String right @ Value_String left)) None
        else unsupported right left)
     else if case_Complex (Kind right) then
       (if case_Complex (Kind left)
        then binop (Value_Complex fp right) (Value_Complex fp left)
               (\<lambda>a b. Return (VComplex128 (complex_add fp a b)) None)
        else unsupported right left)
     else unsupported right left)"

definition SUBExprExecutor_switch :: "float_ops \<Rightarrow> val \<Rightarrow> val \<Rightarrow> result" where
  "SUBExprExecutor_switch fp right left =
    (if case_Int (Kind right) then
       (if range_Int (Kind left)
        then binop (Value_Int right) (Value_Int left) (\<lambda>a b. Return (VInt64 (a - b)) None)
        else if range_Uint (Kind left)
        then binop (Value_Int right) (Value_Uint left)
               (\<lambda>a b. Return (VUint64 (uint64_of_int64 a - b)) None)
        else unsupported right left)
     else if case_Uint (Kind right) then
       (if range_Int (Kind left)
        then binop (Value_Uint right) (Value_Int left)
               (\<lambda>a b. Return (VUint64 (a - uint64_of_int64 b)) None)
        else if range_Uint (Kind left)
        then binop (Value_Uint right) (Value_Uint left) (\<lambda>a b. Return (VUint64 (a - b)) None)
        else unsupported right left)
     else if case_Float (Kind right) then
       (if case_Float (Kind left)
        then binop (Value_Float fp right) (Value_Float fp left)
               (\<lambda>a b. Return (VFloat64 (float_sub fp a b)) None)
        else unsupported right left)
     else if case_Complex (Kind right) then
       (if case_Complex (Kind left)
        then binop (Value_Complex fp right) (Value_Complex fp left)
               (\<lambda>a b. Return (VComplex128 (complex_sub fp a b)) None)
        else unsupported right left)
     else unsupported right left)"

definition MULExprExecutor_switch :: "float_ops \<Rightarrow> val \<Rightarrow> val \<Rightarrow> result" where
  "MULExprExecutor_switch fp right left =
    (if case_Int (Kind right) then
       (if range_Int (Kind left)
        then binop (Value_Int right) (Value_Int left) (\<lambda>a b. Return (VInt64 (a * b)) None)
        else if range_Uint (Kind left)
        then binop (Value_Int right) (Value_Uint left)
               (\<lambda>a b. Return (VUint64 (uint64_of_int64 a * b)) None)
        else unsupported right left)
     else if case_Uint (Kind right) then
       (if range_Int (Kind left)
        then binop (Value_Uint right) (Value_Int left)
               (\<lambda>a b. Return (VUint64 (a * uint64_of_int64 b)) None)
        else if range_Uint (Kind left)
        then binop (Value_Uint right) (Value_Uint left) (\<lambda>a b. Return (VUint64 (a * b)) None)
        else unsupported right left)
     else if case_Float (Kind right) then
       (if case_Float (Kind left)
        then binop (Value_Float fp right) (Value_Float fp left)
               (\<lambda>a b. Return (VFloat64 (float_mul fp a b)) None)
        else unsupported right left)
     else if case_Complex (Kind right) then
       (if case_Complex (Kind left)
        then binop (Value_Complex fp right) (Value_Complex fp left)
               (\<lambda>a b. Return (VComplex128 (complex_mul fp a b)) None)
        else unsupported right left)
     else unsupported right left)"

definition QUOExprExecutor_switch :: "float_ops \<Rightarrow> val \<Rightarrow> val \<Rightarrow> result" where
  "QUOExprExecutor_switch fp right left =
    (if case_Int (Kind right) then
       (if range_Int (Kind left)
        then binop (Value_Int right) (Value_Int left)
               (\<lambda>a b. ValueOf_or_panic VInt64 (int64_quo a b))
        else if range_Uint (Kind left)
        then binop (Value_Int right) (Value_Uint left)
               (\<lambda>a b. ValueOf_or_panic VUint64 (uint64_quo (uint64_of_int64 a) b))
        else unsupported right left)
     else if case_Uint (Kind right) then
       (if range_Int (Kind left)
        then binop (Value_Uint right) (Value_Int left)
               (\<lambda>a b. ValueOf_or_panic VUint64 (uint64_quo a (uint64_of_int64 b)))
        else if range_Uint (Kind left)
        then binop (Value_Uint right) (Value_Uint left)
               (\<lambda>a b. ValueOf_or_panic VUint64 (uint64_quo a b))
        else unsupported right left)
     else if case_Float (Kind right) then
       (if case_Float (Kind left)
        then binop (Value_Float fp right) (Value_Float fp left)
               (\<lambda>a b. Return (VFloat64 (float_quo fp a b)) None)
        else unsupported right left)
     else if case_Complex (Kind right) then
       (if case_Complex (Kind left)
        then binop (Value_Complex fp right) (Value_Complex fp left)
               (\<lambda>a b. Return (VComplex128 (complex_quo fp a b)) None)
        else unsupported right left)
     else unsupported right left)"

definition REMExprExecutor_switch :: "val \<Rightarrow> val \<Rightarrow> result" where
  "REMExprExecutor_switch right left =
    (if case_Int (Kind right) then
       (if range_Int (Kind left)
        then binop (Value_Int right) (Value_Int left)
               (\<lambda>a b. ValueOf_or_panic VInt64 (int64_rem a b))
        else if range_Uint (Kind left)
        then binop (Value_Int right) (Value_Uint left)
               (\<lambda>a b. ValueOf_or_panic VUint64 (uint64_rem (uint64_of_int64 a) b))
        else unsupported right left)
     else if case_Uint (Kind right) then
       (if range_Int (Kind left)
        then binop (Value_Uint right) (Value_Int left)
               (\<lambda>a b. ValueOf_or_panic VUint64 (uint64_rem a (uint64_of_int64 b)))
        else if range_Uint (Kind left)
        then binop (Value_Uint right) (Value_Uint left)
               (\<lambda>a b. ValueOf_or_panic VUint64 (uint64_rem a b))
        else unsupported right left)
     else unsupported right left)"

subsection \<open>The executors\<close>

text \<open>
  Every arithmetic executor calls \<^verbatim>\<open>next()\<close> first, hands its error on, and unwraps both
  operands before the switch.
\<close>

definition ADDExprExecutor_Exec ::
  "float_ops \<Rightarrow> val \<Rightarrow> 's continuation \<Rightarrow> 's continuation" where
  "ADDExprExecutor_Exec fp right next s =
    (case next s of
       None \<Rightarrow> None
     | Some (Panic p, s') \<Rightarrow> Some (Panic p, s')
     | Some (Return left err, s') \<Rightarrow>
        if err \<noteq> None then Some (Return invalidValue err, s')
        else Some (ADDExprExecutor_switch fp
                     (reflectlite_Unwrap right) (reflectlite_Unwrap left), s'))"

definition SUBExprExecutor_Exec ::
  "float_ops \<Rightarrow> val \<Rightarrow> 's continuation \<Rightarrow> 's continuation" where
  "SUBExprExecutor_Exec fp right next s =
    (case next s of
       None \<Rightarrow> None
     | Some (Panic p, s') \<Rightarrow> Some (Panic p, s')
     | Some (Return left err, s') \<Rightarrow>
        if err \<noteq> None then Some (Return invalidValue err, s')
        else Some (SUBExprExecutor_switch fp
                     (reflectlite_Unwrap right) (reflectlite_Unwrap left), s'))"

definition MULExprExecutor_Exec ::
  "float_ops \<Rightarrow> val \<Rightarrow> 's continuation \<Rightarrow> 's continuation" where
  "MULExprExecutor_Exec fp right next s =
    (case next s of
       None \<Rightarrow> None
     | Some (Panic p, s') \<Rightarrow> Some (Panic p, s')
     | Some (Return left err, s') \<Rightarrow>
        if err \<noteq> None then Some (Return invalidValue err, s')
        else Some (MULExprExecutor_switch fp
                     (reflectlite_Unwrap right) (reflectlite_Unwrap left), s'))"

definition QUOExprExecutor_Exec ::
  "float_ops \<Rightarrow> val \<Rightarrow> 's continuation \<Rightarrow> 's continuation" where
  "QUOExprExecutor_Exec fp right next s =
    (case next s of
       None \<Rightarrow> None
     | Some (Panic p, s') \<Rightarrow> Some (Panic p, s')
     | Some (Return left err, s') \<Rightarrow>
        if err \<noteq> None then Some (Return invalidValue err, s')
        else Some (QUOExprExecutor_switch fp
                     (reflectlite_Unwrap right) (reflectlite_Unwrap left), s'))"

definition REMExprExecutor_Exec :: "val \<Rightarrow> 's continuation \<Rightarrow> 's continuation" where
  "REMExprExecutor_Exec right next s =
    (case next s of
       None \<Rightarrow> None
     | Some (Panic p, s') \<Rightarrow> Some (Panic p, s')
     | Some (Return left err, s') \<Rightarrow>
        if err \<noteq> None then Some (Return invalidValue err, s')
        else Some (REMExprExecutor_switch
                     (reflectlite_Unwrap right) (reflectlite_Unwrap left), s'))"

section \<open>The registry\<close>

text \<open>
  \<^verbatim>\<open>token.Token\<close> is an \<^verbatim>\<open>int\<close>; the constants are those of \<^verbatim>\<open>go/token\<close> that
  \<^verbatim>\<open>FromToken\<close> names, with their values there.
\<close>

type_synonym Token = int

definition token_COMMENT :: Token where "token_COMMENT = 2"
definition token_ADD :: Token where "token_ADD = 12"
definition token_SUB :: Token where "token_SUB = 13"
definition token_MUL :: Token where "token_MUL = 14"
definition token_QUO :: Token where "token_QUO = 15"
definition token_REM :: Token where "token_REM = 16"
definition token_AND :: Token where "token_AND = 17"
definition token_OR :: Token where "token_OR = 18"
definition token_LAND :: Token where "token_LAND = 34"
definition token_LOR :: Token where "token_LOR = 35"
definition token_EQL :: Token where "token_EQL = 39"
definition token_LSS :: Token where "token_LSS = 40"
definition token_GTR :: Token where "token_GTR = 41"
definition token_NOT :: Token where "token_NOT = 43"
definition token_NEQ :: Token where "token_NEQ = 44"
definition token_LEQ :: Token where "token_LEQ = 45"
definition token_GEQ :: Token where "token_GEQ = 46"
definition token_LPAREN :: Token where "token_LPAREN = 49"
definition token_RPAREN :: Token where "token_RPAREN = 54"

text \<open>Two tokens of \<^verbatim>\<open>go/token\<close> that the registry does not name.\<close>

definition token_ILLEGAL :: Token where "token_ILLEGAL = 0"
definition token_XOR :: Token where "token_XOR = 19"

text \<open>The executor types: empty structs that implement \<^verbatim>\<open>BinaryExprExecutor\<close>.\<close>

datatype BinaryExprExecutor =
    EQLExprExecutor | NEQExprExecutor | LSSExprExecutor | LEQExprExecutor
  | GTRExprExecutor | GEQExprExecutor | LANDExprExecutor | LORExprExecutor
  | ADDExprExecutor | SUBExprExecutor | MULExprExecutor | QUOExprExecutor
  | REMExprExecutor | LPARENExprExecutor | RPARENExprExecutor | COMMENTExprExecutor
  | NOTExprExecutor | ANDExprExecutor | ORExprExecutor

text \<open>
  \<^verbatim>\<open>FromToken\<close>: \<open>Inr e\<close> is the return of \<^verbatim>\<open>(e, nil)\<close>, \<open>Inl err\<close> that of
  \<^verbatim>\<open>(nil, err)\<close>. The cases are tried in the order of the source.
\<close>

definition FromToken :: "Token \<Rightarrow> error + BinaryExprExecutor" where
  "FromToken t =
    (if t = token_EQL then Inr EQLExprExecutor
     else if t = token_NEQ then Inr NEQExprExecutor
     else if t = token_LSS then Inr LSSExprExecutor
     else if t = token_LEQ then Inr LEQExprExecutor
     else if t = token_GTR then Inr GTRExprExecutor
     else if t = token_GEQ then Inr GEQExprExecutor
     else if t = token_LAND then Inr LANDExprExecutor
     else if t = token_LOR then Inr LORExprExecutor
     else if t = token_ADD then Inr ADDExprExecutor
     else if t = token_SUB then Inr SUBExprExecutor
     else if t = token_MUL then Inr MULExprExecutor
     else if t = token_QUO then Inr QUOExprExecutor
     else if t = token_REM then Inr REMExprExecutor
     else if t = token_LPAREN then Inr LPARENExprExecutor
     else if t = token_RPAREN then Inr RPARENExprExecutor
     else if t = token_COMMENT then Inr COMMENTExprExecutor
     else if t = token_NOT then Inr NOTExprExecutor
     else if t = token_AND then Inr ANDExprExecutor
     else if t = token_OR then Inr ORExprExecutor
     else Inl ErrUnsupportedBinaryExpr)"

text \<open>The closed operator-token set of the specification.\<close>

definition operator_tokens :: "Token list" where
  "operator_tokens =
    [token_EQL, token_NEQ, token_LSS, token_LEQ, token_GTR, token_GEQ, token_LAND,
     token_LOR, token_ADD, token_SUB, token_MUL, token_QUO, token_REM, token_NOT,
     token_AND, token_OR, token_LPAREN, token_RPAREN, token_COMMENT]"

section \<open>Sample continuations\<close>

text \<open>
  A continuation that returns a fixed result and counts how often it has been invoked,
  and one that never comes back.
\<close>

definition next_returns :: "result \<Rightarrow> nat continuation" where
  "next_returns r n = Some (r, Suc n)"

definition next_diverges :: "nat continuation" where
  "next_diverges n = None"

text \<open>
  Floating-point operations for examples over integers, booleans and text, none of which
  reaches a floating-point operation: every operation yields the zero pattern.
\<close>

definition no_float_ops :: float_ops where
  "no_float_ops =
    \<lparr>float64_of_float32 = (\<lambda>_. 0),
     float_add = (\<lambda>_ _. 0), float_sub = (\<lambda>_ _. 0),
     float_mul = (\<lambda>_ _. 0), float_quo = (\<lambda>_ _. 0),
     complex_add = (\<lambda>_ _. (0, 0)), complex_sub = (\<lambda>_ _. (0, 0)),
     complex_mul = (\<lambda>_ _. (0, 0)), complex_quo = (\<lambda>_ _. (0, 0))\<rparr>"

text \<open>The integers that an \<^verbatim>\<open>int64\<close> can hold.\<close>

definition fits_int64 :: "int \<Rightarrow> bool" where
  "fits_int64 k \<longleftrightarrow> - (2 ^ 63) \<le> k \<and> k < 2 ^ 63"

section \<open>Properties of the logical executors\<close>

lemma Kind_Bool_iff: "Kind v = reflect_Bool \<longleftrightarrow> (\<exists>b. v = VBool b)"
  by (cases v) simp_all

lemma Value_Bool_VBool: "Value_Bool (VBool b) = Inr b"
  by (simp add: Value_Bool_def)

text \<open>
  A pending operand that is not boolean is rejected before the continuation is looked at.
  A fetched operand that is not boolean is rejected by three of the four executors and
  returned by the fourth. The NOT executor runs the continuation once and negates a
  boolean.
\<close>

lemma logical_pending_not_boolean:
  assumes "Kind (reflectlite_Unwrap v) \<noteq> reflect_Bool"
  shows "LANDExprExecutor_Exec v nxt s
           = Some (Return invalidValue (Some (fmt_Errorf1 ''unsupported expression: ''
                (Kind (reflectlite_Unwrap v)))), s)"
    and "LORExprExecutor_Exec v nxt s
           = Some (Return invalidValue (Some (fmt_Errorf1 ''unsupported expression: ''
                (Kind (reflectlite_Unwrap v)))), s)"
    and "ANDExprExecutor_Exec v nxt s
           = Some (Return invalidValue (Some (fmt_Errorf1 ''unsupported and expression: ''
                (Kind (reflectlite_Unwrap v)))), s)"
    and "ORExprExecutor_Exec v nxt s
           = Some (Return invalidValue (Some (fmt_Errorf1 ''unsupported or expression: ''
                (Kind (reflectlite_Unwrap v)))), s)"
  using assms
  by (simp_all add: LANDExprExecutor_Exec_def LORExprExecutor_Exec_def
      ANDExprExecutor_Exec_def ORExprExecutor_Exec_def)

lemma logical_fetched_not_boolean:
  assumes "nxt s = Some (Return l None, t)"
    and "Kind (reflectlite_Unwrap l) \<noteq> reflect_Bool"
  shows "reflectlite_Unwrap v = VBool False \<Longrightarrow> LORExprExecutor_Exec v nxt s
           = Some (Return invalidValue (Some (fmt_Errorf1 ''unsupported expression: ''
                (Kind (reflectlite_Unwrap l)))), t)"
    and "reflectlite_Unwrap v = VBool True \<Longrightarrow> ANDExprExecutor_Exec v nxt s
           = Some (Return invalidValue (Some (fmt_Errorf1 ''unsupported and expression: ''
                (Kind (reflectlite_Unwrap l)))), t)"
    and "reflectlite_Unwrap v = VBool False \<Longrightarrow> ORExprExecutor_Exec v nxt s
           = Some (Return invalidValue (Some (fmt_Errorf1 ''unsupported or expression: ''
                (Kind (reflectlite_Unwrap l)))), t)"
    and "reflectlite_Unwrap v = VBool True \<Longrightarrow> LANDExprExecutor_Exec v nxt s
           = Some (Return (reflectlite_Unwrap l) None, t)"
  using assms
  by (simp_all add: LANDExprExecutor_Exec_def LORExprExecutor_Exec_def
      ANDExprExecutor_Exec_def ORExprExecutor_Exec_def Value_Bool_VBool)

lemma NOT_runs_next_once:
  "NOTExprExecutor_Exec pending nxt s =
     (case nxt s of
        None \<Rightarrow> None
      | Some (Panic p, t) \<Rightarrow> Some (Panic p, t)
      | Some (Return right (Some e), t) \<Rightarrow> Some (Return invalidValue (Some e), t)
      | Some (Return (VBool b) None, t) \<Rightarrow> Some (Return (VBool (\<not> b)) None, t)
      | Some (Return right None, t) \<Rightarrow>
          Some (Panic (ValueError ''reflect.Value.Bool'' (Kind right)), t))"
  by (simp add: NOTExprExecutor_Exec_def Value_Bool_def
      split: option.splits result.splits val.splits prod.splits)

text \<open>
  C2. Short circuit. When the pending operand resolves to the boolean \<open>False\<close>, the
  executors of \<^verbatim>\<open>&&\<close> (LAND) and of the AND token return \<open>False\<close> with a nil error and
  leave the continuation's state untouched, whatever the continuation is: it is not
  invoked, so it may as well fail, panic or never return. Likewise the executors of
  \<^verbatim>\<open>||\<close> (LOR) and of the OR token on a pending operand that resolves to \<open>True\<close>.
\<close>

theorem short_circuit:
  assumes "reflectlite_Unwrap a = VBool False" and "reflectlite_Unwrap b = VBool True"
  shows "LANDExprExecutor_Exec a next s = Some (Return (VBool False) None, s)
       \<and> ANDExprExecutor_Exec a next s = Some (Return (VBool False) None, s)
       \<and> LORExprExecutor_Exec b next s = Some (Return (VBool True) None, s)
       \<and> ORExprExecutor_Exec b next s = Some (Return (VBool True) None, s)"
  using assms
  by (simp add: LANDExprExecutor_Exec_def ANDExprExecutor_Exec_def LORExprExecutor_Exec_def
      ORExprExecutor_Exec_def Value_Bool_VBool)

theorem short_circuit_witness:
  "LANDExprExecutor_Exec (VPointer (Some (VBool False))) next_diverges 0
     = Some (Return (VBool False) None, 0)
   \<and> ANDExprExecutor_Exec (VPointer (Some (VBool False))) next_diverges 0
     = Some (Return (VBool False) None, 0)
   \<and> LORExprExecutor_Exec (VBool True)
        (next_returns (Return VInvalid (Some (External ''boom'')))) 0
     = Some (Return (VBool True) None, 0)
   \<and> ORExprExecutor_Exec (VBool True)
        (next_returns (Return VInvalid (Some (External ''boom'')))) 0
     = Some (Return (VBool True) None, 0)"
proof -
  have h1: "reflectlite_Unwrap (VPointer (Some (VBool False))) = VBool False" by simp
  have h2: "reflectlite_Unwrap (VBool True) = VBool True" by simp
  show ?thesis
    using short_circuit [OF h1 h2, of next_diverges 0]
      short_circuit [OF h1 h2, of "next_returns (Return VInvalid (Some (External ''boom'')))" 0]
    by simp
qed

text \<open>
  C3. A logical executor is to reject a fetched operand that is not boolean, and the
  executors of \<^verbatim>\<open>||\<close>, AND and OR do. \<^verbatim>\<open>LANDExprExecutor.Exec\<close> tests \<open>left\<close> a second
  time where they test the fetched operand: with the pending operand \<open>True\<close> and a
  continuation that returns the integer 1, it returns that integer with a nil error.
\<close>

theorem LAND_returns_non_boolean:
  "LANDExprExecutor_Exec (VBool True) (next_returns (Return (VInt 1) None)) 0
     = Some (Return (VInt 1) None, 1)"
  by (simp add: LANDExprExecutor_Exec_def Value_Bool_def next_returns_def)

text \<open>
  C5. The NOT executor is to fail with an error on a fetched operand that is not
  boolean. \<^verbatim>\<open>NOTExprExecutor.Exec\<close> calls \<^verbatim>\<open>right.Bool()\<close> without the unwrapping and
  the kind test of the other logical executors: with a continuation that returns the
  integer 1 the call panics, after invoking the continuation once.
\<close>

theorem NOT_panics_on_non_boolean:
  "NOTExprExecutor_Exec VInvalid (next_returns (Return (VInt 1) None)) 0
     = Some (Panic (ValueError ''reflect.Value.Bool'' reflect_Int), 1)"
  by (simp add: NOTExprExecutor_Exec_def Value_Bool_def next_returns_def)

text \<open>
  C4. The two families of logical executors agree up to the text of their type errors.
  The executors of \<^verbatim>\<open>||\<close> and of the OR token return the same outcome for every pending
  operand and continuation, except that a type error reads \<^verbatim>\<open>unsupported expression: k\<close>
  in the first and \<^verbatim>\<open>unsupported or expression: k\<close> in the second. The executors of
  \<^verbatim>\<open>&&\<close> and of the AND token agree in the same way (the second says
  \<^verbatim>\<open>unsupported and expression: k\<close>) whenever it is not the case that the pending
  operand is \<open>True\<close> and the continuation returns a value that is not boolean.
\<close>

theorem logical_families_agree:
  assumes "\<not> (reflectlite_Unwrap v = VBool True
              \<and> (\<exists>l t. nxt s = Some (Return l None, t)
                       \<and> Kind (reflectlite_Unwrap l) \<noteq> reflect_Bool))"
  shows "(if Kind (reflectlite_Unwrap v) = reflect_Bool
          then LANDExprExecutor_Exec v nxt s = ANDExprExecutor_Exec v nxt s
          else LANDExprExecutor_Exec v nxt s
                 = Some (Return invalidValue (Some (fmt_Errorf1 ''unsupported expression: ''
                      (Kind (reflectlite_Unwrap v)))), s)
             \<and> ANDExprExecutor_Exec v nxt s
                 = Some (Return invalidValue (Some (fmt_Errorf1 ''unsupported and expression: ''
                      (Kind (reflectlite_Unwrap v)))), s))
       \<and> (LORExprExecutor_Exec w nxt' s' = ORExprExecutor_Exec w nxt' s'
          \<or> (\<exists>k t. LORExprExecutor_Exec w nxt' s'
                      = Some (Return invalidValue
                          (Some (fmt_Errorf1 ''unsupported expression: '' k)), t)
                  \<and> ORExprExecutor_Exec w nxt' s'
                      = Some (Return invalidValue
                          (Some (fmt_Errorf1 ''unsupported or expression: '' k)), t)))"
proof -
  have A: "LANDExprExecutor_Exec v nxt s = ANDExprExecutor_Exec v nxt s"
    if "Kind (reflectlite_Unwrap v) = reflect_Bool"
  proof -
    from that obtain b where b: "reflectlite_Unwrap v = VBool b"
      by (auto simp: Kind_Bool_iff)
    show ?thesis
      using assms b
      by (auto simp add: LANDExprExecutor_Exec_def ANDExprExecutor_Exec_def Value_Bool_VBool
          split: option.splits result.splits)
  qed
  have B: "LORExprExecutor_Exec w nxt' s' = ORExprExecutor_Exec w nxt' s'
          \<or> (\<exists>k t. LORExprExecutor_Exec w nxt' s'
                      = Some (Return invalidValue
                          (Some (fmt_Errorf1 ''unsupported expression: '' k)), t)
                  \<and> ORExprExecutor_Exec w nxt' s'
                      = Some (Return invalidValue
                          (Some (fmt_Errorf1 ''unsupported or expression: '' k)), t))"
    by (auto simp add: LORExprExecutor_Exec_def ORExprExecutor_Exec_def Let_def
        split: option.splits result.splits sum.splits)
  show ?thesis
    using A B
    by (simp add: LANDExprExecutor_Exec_def ANDExprExecutor_Exec_def)
qed

theorem logical_families_agree_witness:
  "LANDExprExecutor_Exec (VBool True) (next_returns (Return (VBool False) None)) 0
     = ANDExprExecutor_Exec (VBool True) (next_returns (Return (VBool False) None)) 0
   \<and> ANDExprExecutor_Exec (VBool True) (next_returns (Return (VBool False) None)) 0
     = Some (Return (VBool False) None, 1)
   \<and> LORExprExecutor_Exec (VBool False) (next_returns (Return (VBool True) None)) 0
     = ORExprExecutor_Exec (VBool False) (next_returns (Return (VBool True) None)) 0"
proof -
  have h: "\<not> (reflectlite_Unwrap (VBool True) = VBool True
       \<and> (\<exists>l t. next_returns (Return (VBool False) None) 0 = Some (Return l None, t)
                \<and> Kind (reflectlite_Unwrap l) \<noteq> reflect_Bool))"
    by (auto simp add: next_returns_def)
  show ?thesis
    using logical_families_agree [where nxt = "next_returns (Return (VBool False) None)"
        and s = 0 and v = "VBool True" and w = "VBool False"
        and nxt' = "next_returns (Return (VBool True) None)" and s' = 0, OF h]
    by (simp add: ANDExprExecutor_Exec_def LORExprExecutor_Exec_def ORExprExecutor_Exec_def
        Value_Bool_VBool next_returns_def)
qed

text \<open>
  The outcomes differ on a pending integer, by the message, for both families; and on a
  pending \<open>True\<close> with a fetched integer, where only the AND executor fails.
\<close>

theorem logical_families_differ:
  "LANDExprExecutor_Exec (VInt 1) next_diverges 0
     = Some (Return VInvalid (Some (Errorf ''unsupported expression: int'')), 0)
   \<and> ANDExprExecutor_Exec (VInt 1) next_diverges 0
     = Some (Return VInvalid (Some (Errorf ''unsupported and expression: int'')), 0)
   \<and> LORExprExecutor_Exec (VInt 1) next_diverges 0
     = Some (Return VInvalid (Some (Errorf ''unsupported expression: int'')), 0)
   \<and> ORExprExecutor_Exec (VInt 1) next_diverges 0
     = Some (Return VInvalid (Some (Errorf ''unsupported or expression: int'')), 0)
   \<and> LANDExprExecutor_Exec (VBool True) (next_returns (Return (VInt 1) None)) 0
     = Some (Return (VInt 1) None, 1)
   \<and> ANDExprExecutor_Exec (VBool True) (next_returns (Return (VInt 1) None)) 0
     = Some (Return VInvalid (Some (Errorf ''unsupported and expression: int'')), 1)"
  by (simp add: LANDExprExecutor_Exec_def ANDExprExecutor_Exec_def LORExprExecutor_Exec_def
      ORExprExecutor_Exec_def fmt_Errorf1_def invalidValue_def Value_Bool_def next_returns_def)

section \<open>Properties of the arithmetic executors\<close>

subsection \<open>Kinds and accessors\<close>

lemma Value_Int_kinds:
  assumes "Value_Int v = Inr x"
  shows "case_Int (Kind v)" "range_Int (Kind v)" "\<not> case_Uint (Kind v)" "\<not> range_Uint (Kind v)"
  using assms
  by (cases v; simp add: Value_Int_def case_Int_def range_Int_def case_Uint_def range_Uint_def)+

lemma case_Int_Value_Int: "case_Int (Kind v) \<Longrightarrow> \<exists>x. Value_Int v = Inr x"
  by (cases v; simp add: Value_Int_def case_Int_def)

lemma case_Uint_kinds:
  assumes "case_Uint (Kind v)"
  shows "range_Uint (Kind v)" "\<not> case_Int (Kind v)" "\<not> range_Int (Kind v)"
    "\<exists>y. Value_Uint v = Inr y"
  using assms
  by (cases v; simp add: Value_Uint_def case_Int_def range_Int_def case_Uint_def range_Uint_def)+

lemma Exec_fetch:
  assumes "nxt s = Some (Return l None, s')"
  shows "ADDExprExecutor_Exec fp r nxt s
           = Some (ADDExprExecutor_switch fp (reflectlite_Unwrap r) (reflectlite_Unwrap l), s')"
    and "SUBExprExecutor_Exec fp r nxt s
           = Some (SUBExprExecutor_switch fp (reflectlite_Unwrap r) (reflectlite_Unwrap l), s')"
    and "MULExprExecutor_Exec fp r nxt s
           = Some (MULExprExecutor_switch fp (reflectlite_Unwrap r) (reflectlite_Unwrap l), s')"
    and "QUOExprExecutor_Exec fp r nxt s
           = Some (QUOExprExecutor_switch fp (reflectlite_Unwrap r) (reflectlite_Unwrap l), s')"
    and "REMExprExecutor_Exec r nxt s
           = Some (REMExprExecutor_switch (reflectlite_Unwrap r) (reflectlite_Unwrap l), s')"
  using assms
  by (simp_all add: ADDExprExecutor_Exec_def SUBExprExecutor_Exec_def MULExprExecutor_Exec_def
      QUOExprExecutor_Exec_def REMExprExecutor_Exec_def)

lemma switch_int_int:
  assumes "Value_Int r = Inr a" and "Value_Int l = Inr b"
  shows "ADDExprExecutor_switch fp r l = Return (VInt64 (a + b)) None"
    and "SUBExprExecutor_switch fp r l = Return (VInt64 (a - b)) None"
    and "MULExprExecutor_switch fp r l = Return (VInt64 (a * b)) None"
    and "QUOExprExecutor_switch fp r l = ValueOf_or_panic VInt64 (int64_quo a b)"
    and "REMExprExecutor_switch r l = ValueOf_or_panic VInt64 (int64_rem a b)"
  using assms Value_Int_kinds [OF assms(1)] Value_Int_kinds [OF assms(2)]
  by (simp_all add: ADDExprExecutor_switch_def SUBExprExecutor_switch_def
      MULExprExecutor_switch_def QUOExprExecutor_switch_def REMExprExecutor_switch_def binop_def)

lemma switch_int_uint:
  assumes "Value_Int r = Inr a" and "case_Uint (Kind l)" and "Value_Uint l = Inr b"
  shows "ADDExprExecutor_switch fp r l = Return (VUint64 (uint64_of_int64 a + b)) None"
    and "SUBExprExecutor_switch fp r l = Return (VUint64 (uint64_of_int64 a - b)) None"
    and "MULExprExecutor_switch fp r l = Return (VUint64 (uint64_of_int64 a * b)) None"
    and "QUOExprExecutor_switch fp r l
           = ValueOf_or_panic VUint64 (uint64_quo (uint64_of_int64 a) b)"
    and "REMExprExecutor_switch r l
           = ValueOf_or_panic VUint64 (uint64_rem (uint64_of_int64 a) b)"
  using assms Value_Int_kinds [OF assms(1)] case_Uint_kinds [OF assms(2)]
  by (simp_all add: ADDExprExecutor_switch_def SUBExprExecutor_switch_def
      MULExprExecutor_switch_def QUOExprExecutor_switch_def REMExprExecutor_switch_def binop_def)

lemma switch_uint_int:
  assumes "case_Uint (Kind r)" and "Value_Uint r = Inr a" and "Value_Int l = Inr b"
  shows "ADDExprExecutor_switch fp r l = Return (VUint64 (a + uint64_of_int64 b)) None"
    and "SUBExprExecutor_switch fp r l = Return (VUint64 (a - uint64_of_int64 b)) None"
    and "MULExprExecutor_switch fp r l = Return (VUint64 (a * uint64_of_int64 b)) None"
    and "QUOExprExecutor_switch fp r l
           = ValueOf_or_panic VUint64 (uint64_quo a (uint64_of_int64 b))"
    and "REMExprExecutor_switch r l
           = ValueOf_or_panic VUint64 (uint64_rem a (uint64_of_int64 b))"
  using assms Value_Int_kinds [OF assms(3)] case_Uint_kinds [OF assms(1)]
  by (simp_all add: ADDExprExecutor_switch_def SUBExprExecutor_switch_def
      MULExprExecutor_switch_def QUOExprExecutor_switch_def REMExprExecutor_switch_def binop_def)

lemma switch_uint_uint:
  assumes "case_Uint (Kind r)" and "Value_Uint r = Inr a"
    and "case_Uint (Kind l)" and "Value_Uint l = Inr b"
  shows "ADDExprExecutor_switch fp r l = Return (VUint64 (a + b)) None"
    and "SUBExprExecutor_switch fp r l = Return (VUint64 (a - b)) None"
    and "MULExprExecutor_switch fp r l = Return (VUint64 (a * b)) None"
    and "QUOExprExecutor_switch fp r l = ValueOf_or_panic VUint64 (uint64_quo a b)"
    and "REMExprExecutor_switch r l = ValueOf_or_panic VUint64 (uint64_rem a b)"
  using assms case_Uint_kinds [OF assms(1)] case_Uint_kinds [OF assms(3)]
  by (simp_all add: ADDExprExecutor_switch_def SUBExprExecutor_switch_def
      MULExprExecutor_switch_def QUOExprExecutor_switch_def REMExprExecutor_switch_def binop_def)

lemma uint64_of_int64_id: "uint64_of_int64 x = x"
  by (simp add: uint64_of_int64_def)

lemma uint64_of_int64_mod: "uint (uint64_of_int64 x) = sint x mod 2 ^ 64"
  using uint_word_of_int [where 'a = 64, of "sint x"] by (simp add: uint64_of_int64_def)

subsection \<open>Two's complement\<close>

lemma sint_word_of_int_fits:
  "fits_int64 k \<Longrightarrow> sint (word_of_int k :: int64) = k"
  by (simp add: sint_sbintrunc' signed_take_bit_int_eq_self fits_int64_def)

lemma fits_sint: "fits_int64 (sint (x :: int64))"
  using sint_ge [of x] sint_lt [of x] by (simp add: fits_int64_def)

lemma word_of_int_sint_add: "word_of_int (sint x + sint y) = (x + y :: int64)" by simp
lemma word_of_int_sint_sub: "word_of_int (sint x - sint y) = (x - y :: int64)" by simp
lemma word_of_int_sint_mul: "word_of_int (sint x * sint y) = (x * y :: int64)" by simp

lemma sdiv_abs: "\<bar>k sdiv l\<bar> = \<bar>k\<bar> div \<bar>l\<bar>" for k l :: int
proof -
  have "0 \<le> \<bar>k\<bar> div \<bar>l\<bar>" by (simp add: div_int_pos_iff)
  then show ?thesis by (auto simp add: signed_divide_int_def abs_mult abs_sgn_eq)
qed

lemma smod_abs: "l \<noteq> 0 \<Longrightarrow> \<bar>k smod l\<bar> = \<bar>k\<bar> mod \<bar>l\<bar>" for k l :: int
proof -
  assume "l \<noteq> 0"
  then have "0 \<le> \<bar>k\<bar> mod \<bar>l\<bar>" by simp
  then show ?thesis by (auto simp add: signed_modulo_int_def abs_mult abs_sgn_eq)
qed

lemma fits_smod:
  assumes "fits_int64 l" and "l \<noteq> 0"
  shows "fits_int64 (k smod l)"
proof -
  have "\<bar>k smod l\<bar> < \<bar>l\<bar>" using assms(2) by (simp add: smod_abs)
  moreover have "\<bar>l\<bar> \<le> 2 ^ 63" using assms(1) unfolding fits_int64_def by linarith
  ultimately show ?thesis unfolding fits_int64_def by linarith
qed

lemma fits_sdiv:
  assumes "fits_int64 k" and "fits_int64 l" and "l \<noteq> 0" and "\<not> (k = - (2 ^ 63) \<and> l = - 1)"
  shows "fits_int64 (k sdiv l)"
proof (cases "\<bar>l\<bar> = 1")
  case True
  then have "l = 1 \<or> l = - 1" by arith
  then show ?thesis using assms by (auto simp: fits_int64_def)
next
  case False
  then have l2: "2 \<le> \<bar>l\<bar>" using assms(3) by arith
  have k: "\<bar>k\<bar> \<le> 2 ^ 63" using assms(1) unfolding fits_int64_def by linarith
  have "\<bar>k\<bar> div \<bar>l\<bar> \<le> \<bar>k\<bar> div 2"
    using l2 by (simp add: zdiv_mono2)
  also have "\<dots> \<le> 2 ^ 63 div 2" using k by (simp add: zdiv_mono1)
  finally have "\<bar>k sdiv l\<bar> < 2 ^ 63" by (simp add: sdiv_abs)
  then show ?thesis unfolding fits_int64_def by linarith
qed

lemma word_of_int_mod64: "word_of_int (k mod 2 ^ 64) = (word_of_int k :: 64 word)"
  using wi_bintr [where 'a = 64 and n = 64, of k] by (simp add: take_bit_eq_mod)

lemma next_returns_fetch: "next_returns (Return l None) n = Some (Return l None, Suc n)"
  by (simp add: next_returns_def)

subsection \<open>Division by zero\<close>

text \<open>
  C1. When both operands are of integer kind (signed or unsigned, after unwrapping) and
  the fetched operand, the divisor, is zero, the executors of \<^verbatim>\<open>/\<close> and \<^verbatim>\<open>%\<close> return
  neither an error nor a value: the division panics with the run-time error of an integer
  division by zero, after the continuation has run once.
\<close>

theorem division_by_zero_panics:
  assumes "nxt s = Some (Return l None, s')"
    and "case_Int (Kind (reflectlite_Unwrap r)) \<or> case_Uint (Kind (reflectlite_Unwrap r))"
    and "Value_Int (reflectlite_Unwrap l) = Inr 0
         \<or> case_Uint (Kind (reflectlite_Unwrap l)) \<and> Value_Uint (reflectlite_Unwrap l) = Inr 0"
  shows "QUOExprExecutor_Exec fp r nxt s = Some (Panic runtime_divideError, s')
       \<and> REMExprExecutor_Exec r nxt s = Some (Panic runtime_divideError, s')"
proof -
  let ?r = "reflectlite_Unwrap r" and ?l = "reflectlite_Unwrap l"
  have "QUOExprExecutor_switch fp ?r ?l = Panic runtime_divideError
      \<and> REMExprExecutor_switch ?r ?l = Panic runtime_divideError"
  proof (cases "case_Int (Kind ?r)")
    case True
    then obtain a where a: "Value_Int ?r = Inr a" using case_Int_Value_Int by blast
    from assms(3) show ?thesis
    proof
      assume "Value_Int ?l = Inr 0"
      from switch_int_int(4,5) [OF a this] show ?thesis
        by (simp add: int64_quo_def int64_rem_def ValueOf_or_panic_def)
    next
      assume "case_Uint (Kind ?l) \<and> Value_Uint ?l = Inr 0"
      then have "case_Uint (Kind ?l)" "Value_Uint ?l = Inr 0" by simp_all
      from switch_int_uint(4,5) [OF a this] show ?thesis
        by (simp add: uint64_quo_def uint64_rem_def ValueOf_or_panic_def)
    qed
  next
    case False
    with assms(2) have u: "case_Uint (Kind ?r)" by simp
    then obtain a where a: "Value_Uint ?r = Inr a" using case_Uint_kinds(4) by blast
    from assms(3) show ?thesis
    proof
      assume "Value_Int ?l = Inr 0"
      from switch_uint_int(4,5) [OF u a this] show ?thesis
        by (simp add: uint64_quo_def uint64_rem_def ValueOf_or_panic_def uint64_of_int64_id)
    next
      assume "case_Uint (Kind ?l) \<and> Value_Uint ?l = Inr 0"
      then have "case_Uint (Kind ?l)" "Value_Uint ?l = Inr 0" by simp_all
      from switch_uint_uint(4,5) [OF u a this] show ?thesis
        by (simp add: uint64_quo_def uint64_rem_def ValueOf_or_panic_def)
    qed
  qed
  then show ?thesis by (simp add: Exec_fetch [where nxt = nxt and s = s, OF assms(1)])
qed

theorem division_by_zero_panics_witness:
  "QUOExprExecutor_Exec no_float_ops (VUint8 7)
     (next_returns (Return (VPointer (Some (VInt 0))) None)) 0
     = Some (Panic runtime_divideError, 1)
   \<and> REMExprExecutor_Exec (VUint8 7)
     (next_returns (Return (VPointer (Some (VInt 0))) None)) 0
     = Some (Panic runtime_divideError, 1)"
proof -
  have h1: "next_returns (Return (VPointer (Some (VInt 0))) None) 0
      = Some (Return (VPointer (Some (VInt 0))) None, 1)"
    by (simp add: next_returns_def)
  have h2: "case_Int (Kind (reflectlite_Unwrap (VUint8 7)))
      \<or> case_Uint (Kind (reflectlite_Unwrap (VUint8 7)))"
    by (simp add: case_Uint_def)
  have h3: "Value_Int (reflectlite_Unwrap (VPointer (Some (VInt 0)))) = Inr 0
      \<or> case_Uint (Kind (reflectlite_Unwrap (VPointer (Some (VInt 0)))))
        \<and> Value_Uint (reflectlite_Unwrap (VPointer (Some (VInt 0)))) = Inr 0"
    by (simp add: Value_Int_def)
  show ?thesis
    using division_by_zero_panics
        [where nxt = "next_returns (Return (VPointer (Some (VInt 0))) None)" and s = 0
          and fp = no_float_ops, OF h1 h2 h3] by simp
qed

text \<open>Dividing the integer 1 by the integer 0 panics; no error is returned.\<close>

theorem QUO_REM_zero_divisor:
  "QUOExprExecutor_Exec no_float_ops (VInt 1) (next_returns (Return (VInt 0) None)) 0
     = Some (Panic runtime_divideError, 1)
   \<and> REMExprExecutor_Exec (VInt 1) (next_returns (Return (VInt 0) None)) 0
     = Some (Panic runtime_divideError, 1)"
  by (simp add: QUOExprExecutor_Exec_def REMExprExecutor_Exec_def next_returns_def
      QUOExprExecutor_switch_def REMExprExecutor_switch_def
      case_Int_def range_Int_def binop_def Value_Int_def int64_quo_def int64_rem_def
      ValueOf_or_panic_def)

subsection \<open>Signed operands\<close>

text \<open>
  C6. For signed operands, pending \<open>x\<close> and fetched \<open>y\<close>, the executors of \<^verbatim>\<open>+\<close>,
  \<^verbatim>\<open>-\<close> and \<^verbatim>\<open>*\<close> return the \<^verbatim>\<open>int64\<close> that is \<open>x + y\<close>, \<open>x - y\<close> and \<open>x * y\<close>
  reduced modulo \<open>2 ^ 64\<close>, which is the exact result whenever that fits an
  \<^verbatim>\<open>int64\<close>. For \<open>y \<noteq> 0\<close> the executors of \<^verbatim>\<open>/\<close> and \<^verbatim>\<open>%\<close> return the quotient
  truncated towards zero and the remainder with the sign of \<open>x\<close>; the remainder always
  fits, the quotient fits unless \<open>x\<close> is the least \<^verbatim>\<open>int64\<close> and \<open>y = -1\<close>.
\<close>

theorem signed_integer_arithmetic:
  assumes "nxt s = Some (Return l None, s')"
    and "Value_Int (reflectlite_Unwrap r) = Inr x"
    and "Value_Int (reflectlite_Unwrap l) = Inr y"
  shows "ADDExprExecutor_Exec fp r nxt s
           = Some (Return (VInt64 (word_of_int (sint x + sint y))) None, s')
       \<and> SUBExprExecutor_Exec fp r nxt s
           = Some (Return (VInt64 (word_of_int (sint x - sint y))) None, s')
       \<and> MULExprExecutor_Exec fp r nxt s
           = Some (Return (VInt64 (word_of_int (sint x * sint y))) None, s')
       \<and> (y \<noteq> 0 \<longrightarrow>
            QUOExprExecutor_Exec fp r nxt s
              = Some (Return (VInt64 (word_of_int (sint x sdiv sint y))) None, s')
          \<and> REMExprExecutor_Exec r nxt s
              = Some (Return (VInt64 (word_of_int (sint x smod sint y))) None, s')
          \<and> fits_int64 (sint x smod sint y)
          \<and> (\<not> (sint x = - (2 ^ 63) \<and> sint y = - 1) \<longrightarrow> fits_int64 (sint x sdiv sint y)))
       \<and> (fits_int64 k \<longrightarrow> sint (word_of_int k :: int64) = k)"
proof -
  note sw = switch_int_int [OF assms(2,3)]
  have "fits_int64 (sint x smod sint y)" if "y \<noteq> 0"
    using that by (intro fits_smod) (simp_all add: fits_sint signed_eq_0_iff)
  moreover have "fits_int64 (sint x sdiv sint y)"
    if "y \<noteq> 0" and "\<not> (sint x = - (2 ^ 63) \<and> sint y = - 1)"
    using that by (intro fits_sdiv) (simp_all add: fits_sint signed_eq_0_iff)
  ultimately show ?thesis
    by (simp add: Exec_fetch [where nxt = nxt and s = s, OF assms(1)] sw int64_quo_def int64_rem_def
        ValueOf_or_panic_def sint_word_of_int_fits)
qed

theorem signed_integer_arithmetic_witness:
  "ADDExprExecutor_Exec no_float_ops (VInt (- 7)) (next_returns (Return (VInt64 2) None)) 0
     = Some (Return (VInt64 (- 5)) None, 1)
   \<and> SUBExprExecutor_Exec no_float_ops (VInt (- 7)) (next_returns (Return (VInt64 2) None)) 0
     = Some (Return (VInt64 (- 9)) None, 1)
   \<and> MULExprExecutor_Exec no_float_ops (VInt (- 7)) (next_returns (Return (VInt64 2) None)) 0
     = Some (Return (VInt64 (- 14)) None, 1)
   \<and> QUOExprExecutor_Exec no_float_ops (VInt (- 7)) (next_returns (Return (VInt64 2) None)) 0
     = Some (Return (VInt64 (- 3)) None, 1)
   \<and> REMExprExecutor_Exec (VInt (- 7)) (next_returns (Return (VInt64 2) None)) 0
     = Some (Return (VInt64 (- 1)) None, 1)"
proof -
  have h1: "next_returns (Return (VInt64 2) None) 0 = Some (Return (VInt64 2) None, 1)"
    by (simp add: next_returns_def)
  have h2: "Value_Int (reflectlite_Unwrap (VInt (- 7))) = Inr (- 7)"
    by (simp add: Value_Int_def)
  have h3: "Value_Int (reflectlite_Unwrap (VInt64 2)) = Inr 2"
    by (simp add: Value_Int_def)
  show ?thesis
    using signed_integer_arithmetic
        [where nxt = "next_returns (Return (VInt64 2) None)" and s = 0 and fp = no_float_ops
          and k = 0, OF h1 h2 h3]
    by (simp add: signed_divide_int_def signed_modulo_int_def)
qed

text \<open>The greatest \<^verbatim>\<open>int64\<close> plus 1 is the least \<^verbatim>\<open>int64\<close>, not their sum.\<close>

theorem ADD_overflow_wraps:
  "ADDExprExecutor_Exec no_float_ops (VInt64 9223372036854775807)
     (next_returns (Return (VInt64 1) None)) 0
     = Some (Return (VInt64 (- 9223372036854775808)) None, 1)
   \<and> sint (- 9223372036854775808 :: int64) = - 9223372036854775808"
  by (simp add: ADDExprExecutor_Exec_def next_returns_def ADDExprExecutor_switch_def
      case_Int_def range_Int_def binop_def Value_Int_def)

subsection \<open>Mixed signed and unsigned operands\<close>

text \<open>
  C7. When one operand is signed and the other unsigned, in either order, every
  arithmetic executor converts the signed operand with \<^verbatim>\<open>uint64(...)\<close> and applies the
  operation of \<^verbatim>\<open>uint64\<close>; what it returns is of kind \<^verbatim>\<open>Uint64\<close>. A division or
  remainder by zero panics and returns nothing.
\<close>

theorem mixed_operands_widen_to_unsigned:
  assumes "nxt s = Some (Return l None, t)"
    and "Value_Int (reflectlite_Unwrap r) = Inr a"
    and "case_Uint (Kind (reflectlite_Unwrap l))"
    and "Value_Uint (reflectlite_Unwrap l) = Inr b"
    and "nxt' s' = Some (Return l' None, t')"
    and "case_Uint (Kind (reflectlite_Unwrap r'))"
    and "Value_Uint (reflectlite_Unwrap r') = Inr a'"
    and "Value_Int (reflectlite_Unwrap l') = Inr b'"
  shows "ADDExprExecutor_Exec fp r nxt s
           = Some (Return (VUint64 (uint64_of_int64 a + b)) None, t)
       \<and> SUBExprExecutor_Exec fp r nxt s
           = Some (Return (VUint64 (uint64_of_int64 a - b)) None, t)
       \<and> MULExprExecutor_Exec fp r nxt s
           = Some (Return (VUint64 (uint64_of_int64 a * b)) None, t)
       \<and> QUOExprExecutor_Exec fp r nxt s
           = Some (if b = 0 then Panic runtime_divideError
                   else Return (VUint64 (uint64_of_int64 a div b)) None, t)
       \<and> REMExprExecutor_Exec r nxt s
           = Some (if b = 0 then Panic runtime_divideError
                   else Return (VUint64 (uint64_of_int64 a mod b)) None, t)
       \<and> ADDExprExecutor_Exec fp r' nxt' s'
           = Some (Return (VUint64 (a' + uint64_of_int64 b')) None, t')
       \<and> SUBExprExecutor_Exec fp r' nxt' s'
           = Some (Return (VUint64 (a' - uint64_of_int64 b')) None, t')
       \<and> MULExprExecutor_Exec fp r' nxt' s'
           = Some (Return (VUint64 (a' * uint64_of_int64 b')) None, t')
       \<and> QUOExprExecutor_Exec fp r' nxt' s'
           = Some (if uint64_of_int64 b' = 0 then Panic runtime_divideError
                   else Return (VUint64 (a' div uint64_of_int64 b')) None, t')
       \<and> REMExprExecutor_Exec r' nxt' s'
           = Some (if uint64_of_int64 b' = 0 then Panic runtime_divideError
                   else Return (VUint64 (a' mod uint64_of_int64 b')) None, t')"
proof -
  note f1 = Exec_fetch [where nxt = nxt and s = s, OF assms(1)]
  note f2 = Exec_fetch [where nxt = nxt' and s = s', OF assms(5)]
  note sw1 = switch_int_uint [OF assms(2,3,4)]
  note sw2 = switch_uint_int [OF assms(6,7,8)]
  show ?thesis
    by (simp add: f1 f2 sw1 sw2 uint64_quo_def uint64_rem_def ValueOf_or_panic_def)
qed

theorem mixed_operands_widen_to_unsigned_witness:
  "ADDExprExecutor_Exec no_float_ops (VInt 3) (next_returns (Return (VUint8 4) None)) 0
     = Some (Return (VUint64 7) None, 1)
   \<and> MULExprExecutor_Exec no_float_ops (VInt 3) (next_returns (Return (VUint8 4) None)) 0
     = Some (Return (VUint64 12) None, 1)
   \<and> QUOExprExecutor_Exec no_float_ops (VUint64 9) (next_returns (Return (VInt64 2) None)) 0
     = Some (Return (VUint64 4) None, 1)
   \<and> REMExprExecutor_Exec (VUint64 9) (next_returns (Return (VInt64 2) None)) 0
     = Some (Return (VUint64 1) None, 1)"
proof -
  have h1: "next_returns (Return (VUint8 4) None) 0 = Some (Return (VUint8 4) None, 1)"
    by (simp add: next_returns_def)
  have h2: "Value_Int (reflectlite_Unwrap (VInt 3)) = Inr 3"
    by (simp add: Value_Int_def)
  have h3: "case_Uint (Kind (reflectlite_Unwrap (VUint8 4)))"
    by (simp add: case_Uint_def)
  have h4: "Value_Uint (reflectlite_Unwrap (VUint8 4)) = Inr 4"
    by (simp add: Value_Uint_def)
  have h5: "next_returns (Return (VInt64 2) None) 0 = Some (Return (VInt64 2) None, 1)"
    by (simp add: next_returns_def)
  have h6: "case_Uint (Kind (reflectlite_Unwrap (VUint64 9)))"
    by (simp add: case_Uint_def)
  have h7: "Value_Uint (reflectlite_Unwrap (VUint64 9)) = Inr 9"
    by (simp add: Value_Uint_def)
  have h8: "Value_Int (reflectlite_Unwrap (VInt64 2)) = Inr 2"
    by (simp add: Value_Int_def)
  show ?thesis
    using mixed_operands_widen_to_unsigned
        [where nxt = "next_returns (Return (VUint8 4) None)" and s = 0
          and nxt' = "next_returns (Return (VInt64 2) None)" and s' = 0
          and fp = no_float_ops, OF h1 h2 h3 h4 h5 h6 h7 h8]
    by (simp add: uint64_of_int64_id)
qed

text \<open>
  C10. In a mixed operation the signed operand counts modulo \<open>2 ^ 64\<close>, so a negative
  one does not fail: sum, difference and product are those of the integers reduced
  modulo \<open>2 ^ 64\<close>, and a non-zero divisor divides the reduced operand. The signed
  \<open>-1\<close> plus the unsigned 1 is 0, and the unsigned 1 minus the signed 2 wraps around to
  \<open>2 ^ 64 - 1\<close>.
\<close>

theorem mixed_operands_modulo_2_64:
  assumes "nxt s = Some (Return l None, t)"
    and "Value_Int (reflectlite_Unwrap r) = Inr a"
    and "case_Uint (Kind (reflectlite_Unwrap l))"
    and "Value_Uint (reflectlite_Unwrap l) = Inr b"
    and "nxt' s' = Some (Return l' None, t')"
    and "case_Uint (Kind (reflectlite_Unwrap r'))"
    and "Value_Uint (reflectlite_Unwrap r') = Inr a'"
    and "Value_Int (reflectlite_Unwrap l') = Inr b'"
  shows "ADDExprExecutor_Exec fp r nxt s
           = Some (Return (VUint64 (word_of_int ((sint a + uint b) mod 2 ^ 64))) None, t)
       \<and> SUBExprExecutor_Exec fp r nxt s
           = Some (Return (VUint64 (word_of_int ((sint a - uint b) mod 2 ^ 64))) None, t)
       \<and> MULExprExecutor_Exec fp r nxt s
           = Some (Return (VUint64 (word_of_int ((sint a * uint b) mod 2 ^ 64))) None, t)
       \<and> (b \<noteq> 0 \<longrightarrow>
            QUOExprExecutor_Exec fp r nxt s
              = Some (Return (VUint64 (word_of_int ((sint a mod 2 ^ 64) div uint b))) None, t)
          \<and> REMExprExecutor_Exec r nxt s
              = Some (Return (VUint64 (word_of_int ((sint a mod 2 ^ 64) mod uint b))) None, t))
       \<and> ADDExprExecutor_Exec fp r' nxt' s'
           = Some (Return (VUint64 (word_of_int ((uint a' + sint b') mod 2 ^ 64))) None, t')
       \<and> SUBExprExecutor_Exec fp r' nxt' s'
           = Some (Return (VUint64 (word_of_int ((uint a' - sint b') mod 2 ^ 64))) None, t')
       \<and> MULExprExecutor_Exec fp r' nxt' s'
           = Some (Return (VUint64 (word_of_int ((uint a' * sint b') mod 2 ^ 64))) None, t')
       \<and> (b' \<noteq> 0 \<longrightarrow>
            QUOExprExecutor_Exec fp r' nxt' s'
              = Some (Return (VUint64 (word_of_int (uint a' div (sint b' mod 2 ^ 64)))) None, t')
          \<and> REMExprExecutor_Exec r' nxt' s'
              = Some (Return (VUint64 (word_of_int (uint a' mod (sint b' mod 2 ^ 64)))) None, t'))"
proof -
  note f1 = Exec_fetch [where nxt = nxt and s = s, OF assms(1)]
  note f2 = Exec_fetch [where nxt = nxt' and s = s', OF assms(5)]
  note sw1 = switch_int_uint [OF assms(2,3,4)]
  note sw2 = switch_uint_int [OF assms(6,7,8)]
  have m1: "sint a mod 2 ^ 64 = uint a"
    using uint64_of_int64_mod [of a] by (simp add: uint64_of_int64_id)
  have m2: "sint b' mod 2 ^ 64 = uint b'"
    using uint64_of_int64_mod [of b'] by (simp add: uint64_of_int64_id)
  have e1: "word_of_int ((sint a + uint b) mod 2 ^ 64) = uint64_of_int64 a + b"
    "word_of_int ((sint a - uint b) mod 2 ^ 64) = uint64_of_int64 a - b"
    "word_of_int ((sint a * uint b) mod 2 ^ 64) = uint64_of_int64 a * b"
    "word_of_int ((sint a mod 2 ^ 64) div uint b) = uint64_of_int64 a div b"
    "word_of_int ((sint a mod 2 ^ 64) mod uint b) = uint64_of_int64 a mod b"
    by (simp_all only: word_of_int_mod64 m1 uint64_of_int64_id word_div_def word_mod_def)
      simp_all
  have e2: "word_of_int ((uint a' + sint b') mod 2 ^ 64) = a' + uint64_of_int64 b'"
    "word_of_int ((uint a' - sint b') mod 2 ^ 64) = a' - uint64_of_int64 b'"
    "word_of_int ((uint a' * sint b') mod 2 ^ 64) = a' * uint64_of_int64 b'"
    "word_of_int (uint a' div (sint b' mod 2 ^ 64)) = a' div uint64_of_int64 b'"
    "word_of_int (uint a' mod (sint b' mod 2 ^ 64)) = a' mod uint64_of_int64 b'"
    by (simp_all only: word_of_int_mod64 m2 uint64_of_int64_id word_div_def word_mod_def)
      simp_all
  show ?thesis
    unfolding e1 e2
    by (simp add: f1 f2 sw1 sw2 uint64_quo_def uint64_rem_def ValueOf_or_panic_def
        uint64_of_int64_id)
qed

theorem mixed_operands_modulo_2_64_witness:
  "ADDExprExecutor_Exec no_float_ops (VInt (- 1)) (next_returns (Return (VUint 1) None)) 0
     = Some (Return (VUint64 0) None, 1)
   \<and> SUBExprExecutor_Exec no_float_ops (VInt (- 1)) (next_returns (Return (VUint 1) None)) 0
     = Some (Return (VUint64 18446744073709551614) None, 1)
   \<and> SUBExprExecutor_Exec no_float_ops (VUint64 1) (next_returns (Return (VInt64 2) None)) 0
     = Some (Return (VUint64 18446744073709551615) None, 1)
   \<and> QUOExprExecutor_Exec no_float_ops (VInt (- 1)) (next_returns (Return (VUint 1) None)) 0
     = Some (Return (VUint64 18446744073709551615) None, 1)"
proof -
  have h1: "next_returns (Return (VUint 1) None) 0 = Some (Return (VUint 1) None, 1)"
    by (simp add: next_returns_def)
  have h2: "Value_Int (reflectlite_Unwrap (VInt (- 1))) = Inr (- 1)"
    by (simp add: Value_Int_def)
  have h3: "case_Uint (Kind (reflectlite_Unwrap (VUint 1)))"
    by (simp add: case_Uint_def)
  have h4: "Value_Uint (reflectlite_Unwrap (VUint 1)) = Inr 1"
    by (simp add: Value_Uint_def)
  have h5: "next_returns (Return (VInt64 2) None) 0 = Some (Return (VInt64 2) None, 1)"
    by (simp add: next_returns_def)
  have h6: "case_Uint (Kind (reflectlite_Unwrap (VUint64 1)))"
    by (simp add: case_Uint_def)
  have h7: "Value_Uint (reflectlite_Unwrap (VUint64 1)) = Inr 1"
    by (simp add: Value_Uint_def)
  have h8: "Value_Int (reflectlite_Unwrap (VInt64 2)) = Inr 2"
    by (simp add: Value_Int_def)
  show ?thesis
    using mixed_operands_modulo_2_64
        [where nxt = "next_returns (Return (VUint 1) None)" and s = 0
          and nxt' = "next_returns (Return (VInt64 2) None)" and s' = 0
          and fp = no_float_ops, OF h1 h2 h3 h4 h5 h6 h7 h8]
    by simp
qed

subsection \<open>Text operands\<close>

lemma String_kind_cases:
  assumes "Kind v = reflect_String"
  shows "\<not> case_Int (Kind v)" "\<not> case_Uint (Kind v)" "\<not> case_Float (Kind v)"
    "\<not> case_Complex (Kind v)" "\<not> range_Int (Kind v)" "\<not> range_Uint (Kind v)"
  using assms
  by (simp_all add: case_Int_def case_Uint_def case_Float_def case_Complex_def
      range_Int_def range_Uint_def)

lemma switch_String:
  assumes "Kind r = reflect_String \<or> Kind l = reflect_String"
  shows "SUBExprExecutor_switch fp r l = unsupported r l"
    and "MULExprExecutor_switch fp r l = unsupported r l"
    and "QUOExprExecutor_switch fp r l = unsupported r l"
    and "REMExprExecutor_switch r l = unsupported r l"
  using assms String_kind_cases [of r] String_kind_cases [of l]
  by (auto simp add: SUBExprExecutor_switch_def MULExprExecutor_switch_def
      QUOExprExecutor_switch_def REMExprExecutor_switch_def)

lemma switch_String_ADD:
  "ADDExprExecutor_switch fp (VString a) (VString b) = Return (VString (a @ b)) None"
  by (simp add: ADDExprExecutor_switch_def case_Int_def case_Uint_def case_Float_def
      Value_String_def)

text \<open>
  C8. On two text operands the executor of \<^verbatim>\<open>+\<close> returns the text that is the pending
  operand followed by the fetched one. The executors of \<^verbatim>\<open>-\<close>, \<^verbatim>\<open>*\<close>, \<^verbatim>\<open>/\<close> and
  \<^verbatim>\<open>%\<close> fail with the error \<^verbatim>\<open>unsupported expression: k1, k2\<close> as soon as one of the
  two operands is text.
\<close>

theorem text_operands:
  assumes "nxt s = Some (Return l None, t)"
    and "Kind (reflectlite_Unwrap r) = reflect_String
         \<or> Kind (reflectlite_Unwrap l) = reflect_String"
  shows "(reflectlite_Unwrap r = VString a \<and> reflectlite_Unwrap l = VString b \<longrightarrow>
            ADDExprExecutor_Exec fp r nxt s = Some (Return (VString (a @ b)) None, t))
       \<and> SUBExprExecutor_Exec fp r nxt s
           = Some (unsupported (reflectlite_Unwrap r) (reflectlite_Unwrap l), t)
       \<and> MULExprExecutor_Exec fp r nxt s
           = Some (unsupported (reflectlite_Unwrap r) (reflectlite_Unwrap l), t)
       \<and> QUOExprExecutor_Exec fp r nxt s
           = Some (unsupported (reflectlite_Unwrap r) (reflectlite_Unwrap l), t)
       \<and> REMExprExecutor_Exec r nxt s
           = Some (unsupported (reflectlite_Unwrap r) (reflectlite_Unwrap l), t)"
  by (simp add: Exec_fetch [where nxt = nxt and s = s, OF assms(1)]
      switch_String [OF assms(2)] switch_String_ADD)

theorem text_operands_witness:
  "ADDExprExecutor_Exec no_float_ops (VString ''a'') (next_returns (Return (VString ''b'') None)) 0
     = Some (Return (VString ''ab'') None, 1)
   \<and> SUBExprExecutor_Exec no_float_ops (VString ''a'')
        (next_returns (Return (VString ''b'') None)) 0
     = Some (Return VInvalid (Some (Errorf ''unsupported expression: string, string'')), 1)
   \<and> REMExprExecutor_Exec (VString ''a'') (next_returns (Return (VString ''b'') None)) 0
     = Some (Return VInvalid (Some (Errorf ''unsupported expression: string, string'')), 1)"
proof -
  have h1: "next_returns (Return (VString ''b'') None) 0 = Some (Return (VString ''b'') None, 1)"
    by (simp add: next_returns_def)
  have h2: "Kind (reflectlite_Unwrap (VString ''a'')) = reflect_String
      \<or> Kind (reflectlite_Unwrap (VString ''b'')) = reflect_String"
    by simp
  show ?thesis
    using text_operands [where nxt = "next_returns (Return (VString ''b'') None)" and s = 0
        and fp = no_float_ops and a = "''a''" and b = "''b''", OF h1 h2]
    by (simp add: unsupported_def invalidValue_def)
qed

section \<open>Properties of the registry\<close>

lemmas token_defs =
  token_COMMENT_def token_ADD_def token_SUB_def token_MUL_def token_QUO_def token_REM_def
  token_AND_def token_OR_def token_LAND_def token_LOR_def token_EQL_def token_LSS_def
  token_GTR_def token_NOT_def token_NEQ_def token_LEQ_def token_GEQ_def token_LPAREN_def
  token_RPAREN_def

text \<open>
  C9. \<^verbatim>\<open>FromToken\<close> maps each of the nineteen operator tokens to its own executor,
  with no error; the tokens are pairwise distinct, so no token has two executors. Every
  other token yields \<^verbatim>\<open>ErrUnsupportedBinaryExpr\<close>.
\<close>

theorem FromToken_total:
  "map FromToken operator_tokens
     = map Inr [EQLExprExecutor, NEQExprExecutor, LSSExprExecutor, LEQExprExecutor,
         GTRExprExecutor, GEQExprExecutor, LANDExprExecutor, LORExprExecutor,
         ADDExprExecutor, SUBExprExecutor, MULExprExecutor, QUOExprExecutor,
         REMExprExecutor, NOTExprExecutor, ANDExprExecutor, ORExprExecutor,
         LPARENExprExecutor, RPARENExprExecutor, COMMENTExprExecutor]
   \<and> distinct operator_tokens
   \<and> (t \<notin> set operator_tokens \<longrightarrow> FromToken t = Inl ErrUnsupportedBinaryExpr)"
  by (simp add: operator_tokens_def FromToken_def token_defs)

theorem FromToken_total_witness:
  "token_XOR \<notin> set operator_tokens \<and> FromToken token_XOR = Inl ErrUnsupportedBinaryExpr
   \<and> FromToken token_ILLEGAL = Inl ErrUnsupportedBinaryExpr"
proof -
  have h1: "token_XOR \<notin> set operator_tokens"
    by (simp add: operator_tokens_def token_defs token_XOR_def)
  have h2: "token_ILLEGAL \<notin> set operator_tokens"
    by (simp add: operator_tokens_def token_defs token_ILLEGAL_def)
  show ?thesis
    using FromToken_total [of token_XOR] FromToken_total [of token_ILLEGAL] h1 h2 by simp
qed

end
